theory Spec2Isabelle
  imports Complex_Main "HOL-Library.Word" "HOL-Library.Multiset" "HOL-Library.Product_Lexorder"
begin

unbundle bit_operations_syntax

section \<open>The cell grid (maze\_engine/core/grid.py)\<close>

text \<open>
  A grid is a width, a height and one unsigned byte per cell (Python's \<open>array('B')\<close>).
  Widths, heights and coordinates are Python integers, hence \<open>int\<close>. Exceptions are
  values of the type \<open>error\<close>; a function that can raise returns \<open>error + 'a\<close>.
\<close>

type_synonym byte = "8 word"

datatype error = IndexError | KeyError | ValueError | StructError | ZlibError | JSONError | OverflowError

record Grid =
  width :: int
  height :: int
  cells :: "byte list"

definition NORTH :: byte where "NORTH = 1"
definition EAST :: byte where "EAST = 2"
definition SOUTH :: byte where "SOUTH = 4"
definition WEST :: byte where "WEST = 8"
definition VISITED :: byte where "VISITED = 16"
definition PATH :: byte where "PATH = 32"
definition SOLVER_VISITED :: byte where "SOLVER_VISITED = 64"
definition SOLVER_AUX :: byte where "SOLVER_AUX = 128"
definition ALL_WALLS :: byte where "ALL_WALLS = NORTH OR EAST OR SOUTH OR WEST"

lemmas bit_defs = NORTH_def EAST_def SOUTH_def WEST_def VISITED_def PATH_def
  SOLVER_VISITED_def SOLVER_AUX_def ALL_WALLS_def

text \<open>The dictionaries \<open>DX\<close>, \<open>DY\<close> and \<open>OPPOSITE\<close>; a missing key raises KeyError.\<close>

definition DX :: "byte \<rightharpoonup> int" where
  "DX = [NORTH \<mapsto> 0, SOUTH \<mapsto> 0, EAST \<mapsto> 1, WEST \<mapsto> -1]"

definition DY :: "byte \<rightharpoonup> int" where
  "DY = [NORTH \<mapsto> -1, SOUTH \<mapsto> 1, EAST \<mapsto> 0, WEST \<mapsto> 0]"

definition OPPOSITE :: "byte \<rightharpoonup> byte" where
  "OPPOSITE = [NORTH \<mapsto> SOUTH, SOUTH \<mapsto> NORTH, EAST \<mapsto> WEST, WEST \<mapsto> EAST]"

definition dict_get :: "('k \<rightharpoonup> 'v) \<Rightarrow> 'k \<Rightarrow> error + 'v" where
  "dict_get m k = (case m k of None \<Rightarrow> Inl KeyError | Some v \<Rightarrow> Inr v)"

text \<open>
  Sequencing of computations that can raise: the first exception ends the computation.
\<close>

definition ebind :: "error + 'a \<Rightarrow> ('a \<Rightarrow> error + 'b) \<Rightarrow> error + 'b" where
  "ebind m f = (case m of Inl e \<Rightarrow> Inl e | Inr v \<Rightarrow> f v)"

text \<open>
  Indexing a Python sequence: a negative index counts from the end, and an index outside
  \<open>[-len, len)\<close> raises IndexError.
\<close>

definition py_index :: "'a list \<Rightarrow> int \<Rightarrow> error + nat" where
  "py_index xs i =
     (if 0 \<le> i \<and> i < int (length xs) then Inr (nat i)
      else if - int (length xs) \<le> i \<and> i < 0 then Inr (nat (int (length xs) + i))
      else Inl IndexError)"

definition array_get :: "'a list \<Rightarrow> int \<Rightarrow> error + 'a" where
  "array_get xs i = ebind (py_index xs i) (\<lambda>j. Inr (xs ! j))"

definition array_set :: "'a list \<Rightarrow> int \<Rightarrow> 'a \<Rightarrow> error + 'a list" where
  "array_set xs i v = ebind (py_index xs i) (\<lambda>j. Inr (xs[j := v]))"

text \<open>\<open>Grid.__init__\<close> with no event writer: \<open>[ALL_WALLS] * (width * height)\<close>,
  which is the empty list when the product is not positive.\<close>

definition Grid_init :: "int \<Rightarrow> int \<Rightarrow> Grid" where
  "Grid_init w h = \<lparr> width = w, height = h, cells = replicate (nat (w * h)) ALL_WALLS \<rparr>"

definition get_index :: "Grid \<Rightarrow> int \<Rightarrow> int \<Rightarrow> error + int" where
  "get_index g x y =
     (if 0 \<le> x \<and> x < width g \<and> 0 \<le> y \<and> y < height g then Inr (y * width g + x)
      else Inl IndexError)"

text \<open>
  \<open>carve_path\<close>: the chain of \<open>if\<close>/\<open>elif\<close> has no \<open>else\<close>, so any other
  \<open>dir_bit\<close> leaves the neighbour equal to the cell itself and \<open>opposite = 0\<close>.
  The two stores happen in the source's order; a store that raises ends the call.
\<close>

definition dir_target :: "int \<Rightarrow> int \<Rightarrow> byte \<Rightarrow> int \<times> int \<times> byte" where
  "dir_target x y dir_bit =
     (if dir_bit = NORTH then (x, y - 1, SOUTH)
      else if dir_bit = SOUTH then (x, y + 1, NORTH)
      else if dir_bit = EAST then (x + 1, y, WEST)
      else if dir_bit = WEST then (x - 1, y, EAST)
      else (x, y, 0))"



definition has_wall :: "Grid \<Rightarrow> int \<Rightarrow> int \<Rightarrow> byte \<Rightarrow> error + bool" where
  "has_wall g x y dir_bit =
     ebind (array_get (cells g) (y * width g + x)) (\<lambda>v. Inr (v AND dir_bit \<noteq> 0))"



text \<open>\<open>get_neighbors\<close> yields in the order north, south, east, west.\<close>

definition get_neighbors :: "Grid \<Rightarrow> int \<Rightarrow> int \<Rightarrow> (int \<times> int \<times> byte) list" where
  "get_neighbors g x y =
     (if y > 0 then [(x, y - 1, NORTH)] else []) @
     (if y < height g - 1 then [(x, y + 1, SOUTH)] else []) @
     (if x < width g - 1 then [(x + 1, y, EAST)] else []) @
     (if x > 0 then [(x - 1, y, WEST)] else [])"

definition get_open_neighbors :: "Grid \<Rightarrow> int \<Rightarrow> int \<Rightarrow> error + (int \<times> int) list" where
  "get_open_neighbors g x y =
     ebind (array_get (cells g) (y * width g + x)) (\<lambda>val. Inr (
       (if val AND NORTH = 0 \<and> y > 0 then [(x, y - 1)] else []) @
       (if val AND SOUTH = 0 \<and> y < height g - 1 then [(x, y + 1)] else []) @
       (if val AND EAST = 0 \<and> x < width g - 1 then [(x + 1, y)] else []) @
       (if val AND WEST = 0 \<and> x > 0 then [(x - 1, y)] else [])))"

subsection \<open>Well-formed grids and wall symmetry\<close>

definition in_bounds :: "Grid \<Rightarrow> int \<Rightarrow> int \<Rightarrow> bool" where
  "in_bounds g x y = (0 \<le> x \<and> x < width g \<and> 0 \<le> y \<and> y < height g)"

definition wf_grid :: "Grid \<Rightarrow> bool" where
  "wf_grid g = (length (cells g) = nat (width g * height g))"










lemma idx_bound:
  fixes x y w h :: int
  assumes "0 \<le> x" "x < w" "0 \<le> y" "y < h"
  shows "0 \<le> y * w + x" "y * w + x < w * h"
proof -
  show "0 \<le> y * w + x" using assms by simp
  have "(y + 1) * w \<le> h * w" using assms by (intro mult_right_mono) auto
  then show "y * w + x < w * h" using assms by (simp add: algebra_simps)
qed


lemma py_index_nonneg: "0 \<le> i \<Longrightarrow> i < int (length xs) \<Longrightarrow> py_index xs i = Inr (nat i)"
  by (simp add: py_index_def)

lemma flat_bounds:
  assumes "wf_grid g" "in_bounds g x y"
  shows "0 \<le> y * width g + x" and "y * width g + x < int (length (cells g))"
proof -
  have a: "0 \<le> x" "x < width g" "0 \<le> y" "y < height g" using assms(2) by (auto simp: in_bounds_def)
  show "0 \<le> y * width g + x" by (rule idx_bound(1)[OF a])
  have "y * width g + x < width g * height g" by (rule idx_bound(2)[OF a])
  then show "y * width g + x < int (length (cells g))" using assms(1) by (simp add: wf_grid_def)
qed

lemma py_index_cell:
  assumes "wf_grid g" "in_bounds g x y"
  shows "py_index (cells g) (y * width g + x) = Inr (nat (y * width g + x))"
    and "nat (y * width g + x) < length (cells g)"
proof -
  note b = flat_bounds[OF assms]
  show "py_index (cells g) (y * width g + x) = Inr (nat (y * width g + x))"
    by (rule py_index_nonneg[OF b])
  show "nat (y * width g + x) < length (cells g)" using b by linarith
qed




definition put_cell :: "Grid \<Rightarrow> int \<Rightarrow> int \<Rightarrow> byte \<Rightarrow> Grid" where
  "put_cell g x y v = g\<lparr>cells := (cells g)[nat (y * width g + x) := v]\<rparr>"


lemma put_cell_simps [simp]:
  "width (put_cell g x y v) = width g" "height (put_cell g x y v) = height g"
  "wf_grid (put_cell g x y v) = wf_grid g" "in_bounds (put_cell g x y v) a b = in_bounds g a b"
  "g\<lparr>cells := cells (put_cell g x y v)\<rparr> = put_cell g x y v"
  by (simp_all add: put_cell_def wf_grid_def in_bounds_def)



lemma dir_target_simps [simp]:
  "dir_target x y NORTH = (x, y - 1, SOUTH)" "dir_target x y SOUTH = (x, y + 1, NORTH)"
  "dir_target x y EAST = (x + 1, y, WEST)" "dir_target x y WEST = (x - 1, y, EAST)"
  by (simp_all add: dir_target_def bit_defs)











lemma ALL_WALLS_15: "ALL_WALLS = 15"
  by (simp add: bit_defs)










subsection \<open>Out-of-range coordinates\<close>


text \<open>
  What the operations other than \<open>get_index\<close> do with their coordinates: they index the
  array at the flat index \<open>y * width + x\<close>. \<open>flat_ok\<close> says that Python accepts the
  index, and \<open>flat_cell\<close> is the position it reaches (a negative index counts from the end).
\<close>

definition flat_ok :: "Grid \<Rightarrow> int \<Rightarrow> int \<Rightarrow> bool" where
  "flat_ok g x y =
     (- int (length (cells g)) \<le> y * width g + x \<and> y * width g + x < int (length (cells g)))"

definition flat_cell :: "Grid \<Rightarrow> int \<Rightarrow> int \<Rightarrow> nat" where
  "flat_cell g x y =
     (if 0 \<le> y * width g + x then nat (y * width g + x)
      else nat (int (length (cells g)) + (y * width g + x)))"

lemma py_index_flat:
  "py_index (cells g) (y * width g + x) =
     (if flat_ok g x y then Inr (flat_cell g x y) else Inl IndexError)"
  by (auto simp: py_index_def flat_ok_def flat_cell_def)

lemma flat_ok_in_bounds:
  assumes "wf_grid g" "in_bounds g x y"
  shows "flat_ok g x y" "flat_cell g x y = nat (y * width g + x)"
  using py_index_cell[OF assms] py_index_flat[of g y x]
  by (auto split: if_splits)







section \<open>The serializer (maze\_engine/io/serializer.py)\<close>

text \<open>
  A file is its sequence of bytes. \<open>json\<close> and \<open>zlib\<close> are libraries outside the
  repository: they are parameters of the model, collected in a record. \<open>json_dumps\<close>
  stands for \<open>json.dumps(meta).encode('utf-8')\<close> and \<open>json_loads\<close> for
  \<open>json.loads(bytes.decode('utf-8'))\<close>; both can raise.
\<close>

record 'm ext_lib =
  json_dumps :: "'m \<Rightarrow> error + byte list"
  json_loads :: "byte list \<Rightarrow> error + 'm"
  zlib_compress :: "byte list \<Rightarrow> byte list"
  zlib_decompress :: "byte list \<Rightarrow> error + byte list"

definition MAGIC :: "byte list" where "MAGIC = [77, 65, 90, 69]"
definition VERSION :: int where "VERSION = 1"
definition FLAG_COMPRESSED :: int where "FLAG_COMPRESSED = 1"
definition FLAG_SEED_ONLY :: int where "FLAG_SEED_ONLY = 2"

text \<open>
  \<open>struct.pack\<close> and \<open>struct.unpack\<close> for the unsigned formats \<open>B\<close>, \<open>H\<close> and
  \<open>I\<close> (1, 2 and 4 bytes, native order, taken as little-endian): packing raises
  \<open>struct.error\<close> when the value does not fit, unpacking when the buffer has the wrong
  length (a short read at the end of the file).
\<close>

fun le_bytes :: "nat \<Rightarrow> int \<Rightarrow> byte list" where
  "le_bytes 0 v = []"
| "le_bytes (Suc n) v = word_of_int v # le_bytes n (v div 256)"

fun le_val :: "byte list \<Rightarrow> int" where
  "le_val [] = 0"
| "le_val (b # bs) = uint b + 256 * le_val bs"

definition pack_uint :: "nat \<Rightarrow> int \<Rightarrow> error + byte list" where
  "pack_uint n v = (if 0 \<le> v \<and> v < 256 ^ n then Inr (le_bytes n v) else Inl StructError)"

definition unpack_uint :: "nat \<Rightarrow> byte list \<Rightarrow> error + int" where
  "unpack_uint n bs = (if length bs = n then Inr (le_val bs) else Inl StructError)"

text \<open>\<open>f.read(n)\<close>: up to \<open>n\<close> bytes, and the rest of the file.\<close>

definition read :: "nat \<Rightarrow> byte list \<Rightarrow> byte list \<times> byte list" where
  "read n f = (take n f, drop n f)"

definition save :: "'m ext_lib \<Rightarrow> Grid \<Rightarrow> 'm \<Rightarrow> bool \<Rightarrow> bool \<Rightarrow> error + byte list" where
  "save lib grid meta seed_only compress =
     (let flags0 = 0;
          flags1 = (if compress then flags0 OR FLAG_COMPRESSED else flags0);
          flags = (if seed_only then flags1 OR FLAG_SEED_ONLY else flags1) in
      ebind (json_dumps lib meta) (\<lambda>meta_bytes.
      ebind (pack_uint 1 VERSION) (\<lambda>vb.
      ebind (pack_uint 1 flags) (\<lambda>fb.
      ebind (pack_uint 4 (width grid)) (\<lambda>wb.
      ebind (pack_uint 4 (height grid)) (\<lambda>hb.
      ebind (pack_uint 2 (int (length meta_bytes))) (\<lambda>mlb.
      let header = MAGIC @ vb @ fb @ wb @ hb @ mlb @ meta_bytes in
      if seed_only then ebind (pack_uint 4 0) (\<lambda>dlb. Inr (header @ dlb))
      else
        let data = (if compress then zlib_compress lib (cells grid) else cells grid) in
        ebind (pack_uint 4 (int (length data))) (\<lambda>dlb. Inr (header @ dlb @ data)))))))))"

definition load :: "'m ext_lib \<Rightarrow> byte list \<Rightarrow> error + (Grid \<times> 'm)" where
  "load lib f =
     (case read 4 f of (magic, f1) \<Rightarrow>
      if magic \<noteq> MAGIC then Inl ValueError
      else
        case read 1 f1 of (vb, f2) \<Rightarrow> ebind (unpack_uint 1 vb) (\<lambda>version.
        case read 1 f2 of (fb, f3) \<Rightarrow> ebind (unpack_uint 1 fb) (\<lambda>flags.
        case read 8 f3 of (whb, f4) \<Rightarrow>
          if length whb \<noteq> 8 then Inl StructError
          else
            let width = le_val (take 4 whb); height = le_val (drop 4 whb) in
            case read 2 f4 of (mlb, f5) \<Rightarrow> ebind (unpack_uint 2 mlb) (\<lambda>meta_len.
            case read (nat meta_len) f5 of (meta_bytes, f6) \<Rightarrow>
              ebind (json_loads lib meta_bytes) (\<lambda>meta.
              let grid = Grid_init width height in
              case read 4 f6 of (dlb, f7) \<Rightarrow> ebind (unpack_uint 4 dlb) (\<lambda>data_len.
              if flags AND FLAG_SEED_ONLY \<noteq> 0 then Inr (grid, meta)
              else if data_len > 0 then
                case read (nat data_len) f7 of (data, f8) \<Rightarrow>
                  ebind (if flags AND FLAG_COMPRESSED \<noteq> 0 then zlib_decompress lib data
                         else Inr data) (\<lambda>data'.
                  Inr (grid\<lparr>cells := data'\<rparr>, meta))
              else Inr (grid, meta)))))))"

lemma length_le_bytes [simp]: "length (le_bytes n v) = n"
  by (induction n arbitrary: v) auto

lemma le_val_le_bytes: "0 \<le> v \<Longrightarrow> v < 256 ^ n \<Longrightarrow> le_val (le_bytes n v) = v"
proof (induction n arbitrary: v)
  case 0
  then show ?case by simp
next
  case (Suc n)
  have "v div 256 < 256 ^ n" using Suc.prems by (simp add: div_less_iff_less_mult mult.commute)
  moreover have "0 \<le> v div 256" using Suc.prems by simp
  ultimately have "le_val (le_bytes n (v div 256)) = v div 256" by (rule Suc.IH[rotated])
  moreover have "uint (word_of_int v :: byte) = v mod 256" by (simp add: uint_word_of_int)
  ultimately show ?case by simp
qed

lemma pack_uint_Inr:
  assumes "0 \<le> v" "v < 256 ^ n"
  shows "pack_uint n v = Inr (le_bytes n v)"
  using assms by (simp add: pack_uint_def)

lemma read_append: "length a = n \<Longrightarrow> read n (a @ b) = (a, b)"
  by (simp add: read_def)


lemma read_append2: "length a + length b = n \<Longrightarrow> read n (a @ b @ c) = (a @ b, c)"
  by (simp add: read_def)

lemma read_all: "length a = n \<Longrightarrow> read n a = (a, [])"
  by (simp add: read_def)

lemma unpack_pack:
  assumes "0 \<le> v" "v < 256 ^ n"
  shows "unpack_uint n (le_bytes n v) = Inr v"
  using assms by (simp add: unpack_uint_def le_val_le_bytes)

lemma length_MAGIC: "length MAGIC = 4"
  by (simp add: MAGIC_def)

lemma load_parts:
  assumes "length vb = 1" "length fb = 1" "length wb = 4" "length hb = 4" "length mlb = 2"
    "le_val mlb = int (length mb)" "length dlb = 4"
  shows "load lib (MAGIC @ vb @ fb @ wb @ hb @ mlb @ mb @ dlb @ data) =
    ebind (json_loads lib mb) (\<lambda>meta.
      let grid = Grid_init (le_val wb) (le_val hb) in
      if le_val fb AND FLAG_SEED_ONLY \<noteq> 0 then Inr (grid, meta)
      else if le_val dlb > 0 then
        ebind (if le_val fb AND FLAG_COMPRESSED \<noteq> 0
               then zlib_decompress lib (take (nat (le_val dlb)) data)
               else Inr (take (nat (le_val dlb)) data)) (\<lambda>data'.
          Inr (grid\<lparr>cells := data'\<rparr>, meta))
      else Inr (grid, meta))"
  using assms
  by (cases "json_loads lib mb")
     (simp_all add: load_def read_append read_append2 length_MAGIC unpack_uint_def ebind_def Let_def
        read_def)

definition header_fits :: "'m ext_lib \<Rightarrow> Grid \<Rightarrow> 'm \<Rightarrow> bool" where
  "header_fits lib g meta =
     (0 \<le> width g \<and> width g < 2 ^ 32 \<and> 0 \<le> height g \<and> height g < 2 ^ 32 \<and>
      (case json_dumps lib meta of Inl e \<Rightarrow> False
       | Inr mb \<Rightarrow> length mb < 2 ^ 16 \<and> (case json_loads lib mb of Inl e \<Rightarrow> False | Inr m \<Rightarrow> True)))"

definition fits_format :: "'m ext_lib \<Rightarrow> Grid \<Rightarrow> 'm \<Rightarrow> bool \<Rightarrow> bool" where
  "fits_format lib g meta compress =
     (header_fits lib g meta \<and>
      length (if compress then zlib_compress lib (cells g) else cells g) < 2 ^ 32)"

definition stub_lib :: "(byte list) ext_lib" where
  "stub_lib = \<lparr> json_dumps = Inr, json_loads = Inr, zlib_compress = (\<lambda>d. 120 # d),
     zlib_decompress = (\<lambda>d. case d of [] \<Rightarrow> Inl ZlibError
        | b # r \<Rightarrow> if b = 120 then Inr r else Inl ZlibError) \<rparr>"

definition zlib_ok :: "'m ext_lib \<Rightarrow> bool" where
  "zlib_ok lib = (\<forall>d. zlib_decompress lib (zlib_compress lib d) = Inr d \<and> zlib_compress lib d \<noteq> [])"

lemma flags_cases:
  "(0::int) AND FLAG_SEED_ONLY = 0" "(0 OR FLAG_COMPRESSED) AND FLAG_SEED_ONLY = 0"
  "(0::int) AND FLAG_COMPRESSED = 0" "(0 OR FLAG_COMPRESSED) AND FLAG_COMPRESSED \<noteq> 0"
  "(0 OR FLAG_SEED_ONLY) AND FLAG_SEED_ONLY \<noteq> 0"
  "((0 OR FLAG_COMPRESSED) OR FLAG_SEED_ONLY) AND FLAG_SEED_ONLY \<noteq> 0"
  "0 \<le> (0::int) \<and> (0::int) < 256" "0 \<le> 0 OR FLAG_COMPRESSED \<and> 0 OR FLAG_COMPRESSED < 256"
  "0 \<le> 0 OR FLAG_SEED_ONLY \<and> 0 OR FLAG_SEED_ONLY < 256"
  "0 \<le> (0 OR FLAG_COMPRESSED) OR FLAG_SEED_ONLY \<and> (0 OR FLAG_COMPRESSED) OR FLAG_SEED_ONLY < 256"
  by (simp_all add: FLAG_SEED_ONLY_def FLAG_COMPRESSED_def)

text \<open>
  Claim C8. For every grid whose cell array has width times height entries and that fits
  the fields of the file format (width and height in 4 bytes, encoded metadata length in
  2 bytes, payload length in 4 bytes), with a \<open>zlib\<close> whose \<open>decompress\<close> inverts
  \<open>compress\<close> and whose output is never empty: saving (raw or compressed) succeeds and
  loading the saved bytes yields a grid with the same width, height and cell bytes.
\<close>

theorem save_load_round_trip:
  assumes wf: "wf_grid g" and z: "zlib_ok lib" and fit: "fits_format lib g meta compress"
  shows "\<exists>file m. save lib g meta False compress = Inr file \<and> load lib file = Inr (g, m)"
proof -
  obtain mb m where mb: "json_dumps lib meta = Inr mb" "length mb < 2 ^ 16" "json_loads lib mb = Inr m"
    using fit by (auto simp: fits_format_def header_fits_def split: sum.splits)
  define data where "data = (if compress then zlib_compress lib (cells g) else cells g)"
  define flags where "flags = (if compress then 0 OR FLAG_COMPRESSED else (0::int))"
  have w: "0 \<le> width g" "width g < 256 ^ 4" and h: "0 \<le> height g" "height g < 256 ^ 4"
    and dl: "int (length data) < 256 ^ 4"
    using fit by (auto simp: fits_format_def header_fits_def data_def)
  have ml: "int (length mb) < 256 ^ 2" using mb(2) by simp
  have fl: "0 \<le> flags" "flags < 256 ^ 1" using flags_cases by (auto simp: flags_def)
  have v: "0 \<le> VERSION" "VERSION < 256 ^ 1" by (simp_all add: VERSION_def)
  let ?file = "MAGIC @ le_bytes 1 VERSION @ le_bytes 1 flags @ le_bytes 4 (width g) @
     le_bytes 4 (height g) @ le_bytes 2 (int (length mb)) @ mb @ le_bytes 4 (int (length data)) @ data"
  have s: "save lib g meta False compress = Inr ?file"
    using mb(1) pack_uint_Inr[OF v] pack_uint_Inr[OF fl] pack_uint_Inr[OF w] pack_uint_Inr[OF h]
      pack_uint_Inr[OF _ ml] pack_uint_Inr[OF _ dl]
    by (simp add: save_def Let_def ebind_def data_def flags_def)
  have seed: "flags AND FLAG_SEED_ONLY = 0" using flags_cases by (auto simp: flags_def)
  have comp: "(flags AND FLAG_COMPRESSED \<noteq> 0) = compress" using flags_cases by (auto simp: flags_def)
  have cellsg: "Grid_init (width g) (height g)\<lparr>cells := cells g\<rparr> = g"
    by (simp add: Grid_init_def)
  have dec: "(if compress then zlib_decompress lib data else Inr data) = Inr (cells g)"
    using z by (simp add: data_def zlib_ok_def)
  have empty: "length data = 0 \<Longrightarrow> Grid_init (width g) (height g) = g"
  proof -
    assume "length data = 0"
    then have "cells g = []" using z by (auto simp: data_def zlib_ok_def split: if_splits)
    then show ?thesis using wf by (simp add: Grid_init_def wf_grid_def)
  qed
  have lens: "length (le_bytes 1 VERSION) = 1" "length (le_bytes 1 flags) = 1"
    "length (le_bytes 4 (width g)) = 4" "length (le_bytes 4 (height g)) = 4"
    "length (le_bytes 2 (int (length mb))) = 2"
    "le_val (le_bytes 2 (int (length mb))) = int (length mb)"
    "length (le_bytes 4 (int (length data))) = 4"
    using le_val_le_bytes[OF _ ml] by simp_all
  have vals: "le_val (le_bytes 1 flags) = flags" "le_val (le_bytes 4 (width g)) = width g"
    "le_val (le_bytes 4 (height g)) = height g"
    "le_val (le_bytes 4 (int (length data))) = int (length data)"
    using le_val_le_bytes[OF fl] le_val_le_bytes[OF w] le_val_le_bytes[OF h] le_val_le_bytes[OF _ dl]
    by simp_all
  note lp = load_parts[OF lens, of lib data, unfolded vals]
  have l: "load lib ?file = Inr (g, m)"
  proof (cases "data = []")
    case True
    then show ?thesis using empty unfolding lp
      by (simp add: mb(3) ebind_def seed Let_def)
  next
    case False
    then show ?thesis unfolding lp using dec cellsg
      by (cases compress) (simp_all add: mb(3) ebind_def seed comp Let_def)
  qed
  show ?thesis using s l by blast
qed


theorem save_load_round_trip_witness:
  "wf_grid \<lparr>width = 2, height = 1, cells = [13, 7]\<rparr> \<and> zlib_ok stub_lib \<and>
   fits_format stub_lib \<lparr>width = 2, height = 1, cells = [13, 7]\<rparr> [123, 125] True \<and>
   (\<exists>file m. save stub_lib \<lparr>width = 2, height = 1, cells = [13, 7]\<rparr> [123, 125] False True = Inr file \<and>
      load stub_lib file = Inr (\<lparr>width = 2, height = 1, cells = [13, 7]\<rparr>, m))"
  using save_load_round_trip [of "\<lparr>width = 2, height = 1, cells = [13, 7]\<rparr>" stub_lib "[123, 125]" True]
  by (simp add: wf_grid_def zlib_ok_def fits_format_def header_fits_def stub_lib_def)

text \<open>
  Claim C10. Saving in seed-only mode (with or without the compression flag) and loading
  the file yields the decoded stored metadata and a grid of the stored width and height
  whose cell array has width times height entries, each equal to 15.
\<close>

theorem load_seed_only_all_walls:
  assumes fit: "header_fits lib g meta"
  shows "\<exists>file mb m g'. save lib g meta True compress = Inr file \<and>
     json_dumps lib meta = Inr mb \<and> json_loads lib mb = Inr m \<and>
     load lib file = Inr (g', m) \<and> width g' = width g \<and> height g' = height g \<and>
     length (cells g') = nat (width g * height g) \<and> (\<forall>c \<in> set (cells g'). c = 15)"
proof -
  obtain mb m where mb: "json_dumps lib meta = Inr mb" "length mb < 2 ^ 16" "json_loads lib mb = Inr m"
    using fit by (auto simp: header_fits_def split: sum.splits)
  define flags where "flags = (if compress then (0 OR FLAG_COMPRESSED) OR FLAG_SEED_ONLY else 0 OR FLAG_SEED_ONLY)"
  have w: "0 \<le> width g" "width g < 256 ^ 4" and h: "0 \<le> height g" "height g < 256 ^ 4"
    using fit by (auto simp: header_fits_def)
  have ml: "int (length mb) < 256 ^ 2" using mb(2) by simp
  have fl: "0 \<le> flags" "flags < 256 ^ 1" using flags_cases by (auto simp: flags_def)
  have v: "0 \<le> VERSION" "VERSION < 256 ^ 1" by (simp_all add: VERSION_def)
  have z: "(0::int) < 256 ^ 4" by simp
  let ?file = "MAGIC @ le_bytes 1 VERSION @ le_bytes 1 flags @ le_bytes 4 (width g) @
     le_bytes 4 (height g) @ le_bytes 2 (int (length mb)) @ mb @ le_bytes 4 0 @ []"
  have s: "save lib g meta True compress = Inr ?file"
    using mb(1) pack_uint_Inr[OF v] pack_uint_Inr[OF fl] pack_uint_Inr[OF w] pack_uint_Inr[OF h]
      pack_uint_Inr[OF _ ml] pack_uint_Inr[OF _ z]
    by (cases compress) (simp_all add: save_def Let_def ebind_def flags_def)
  have seed: "flags AND FLAG_SEED_ONLY \<noteq> 0" using flags_cases by (auto simp: flags_def)
  have lens: "length (le_bytes 1 VERSION) = 1" "length (le_bytes 1 flags) = 1"
    "length (le_bytes 4 (width g)) = 4" "length (le_bytes 4 (height g)) = 4"
    "length (le_bytes 2 (int (length mb))) = 2"
    "le_val (le_bytes 2 (int (length mb))) = int (length mb)"
    "length (le_bytes 4 0) = 4"
    using le_val_le_bytes[OF _ ml] by simp_all
  have vals: "le_val (le_bytes 1 flags) = flags" "le_val (le_bytes 4 (width g)) = width g"
    "le_val (le_bytes 4 (height g)) = height g"
    using le_val_le_bytes[OF fl] le_val_le_bytes[OF w] le_val_le_bytes[OF h]
    by simp_all
  note lp = load_parts[OF lens, of lib "[]", unfolded vals]
  have l: "load lib ?file = Inr (Grid_init (width g) (height g), m)"
    unfolding lp by (simp add: mb(3) ebind_def seed Let_def)
  show ?thesis using s l mb by (simp add: Grid_init_def ALL_WALLS_15)
qed

theorem load_seed_only_all_walls_witness:
  "header_fits stub_lib \<lparr>width = 2, height = 1, cells = [13, 7]\<rparr> [123, 125] \<and>
   (\<exists>file mb m g'. save stub_lib \<lparr>width = 2, height = 1, cells = [13, 7]\<rparr> [123, 125] True False = Inr file \<and>
     json_dumps stub_lib [123, 125] = Inr mb \<and> json_loads stub_lib mb = Inr m \<and>
     load stub_lib file = Inr (g', m) \<and> width g' = 2 \<and> height g' = 1 \<and> cells g' = [15, 15])"
proof -
  have h: "header_fits stub_lib \<lparr>width = 2, height = 1, cells = [13, 7]\<rparr> [123, 125]"
    by (simp add: header_fits_def stub_lib_def)
  obtain f0 mb m g' where a: "save stub_lib \<lparr>width = 2, height = 1, cells = [13, 7]\<rparr> [123, 125] True False = Inr f0"
     "json_dumps stub_lib [123, 125] = Inr mb" "json_loads stub_lib mb = Inr m"
     "load stub_lib f0 = Inr (g', m)" "width g' = 2" "height g' = 1"
     "length (cells g') = 2" "\<forall>c \<in> set (cells g'). c = 15"
    using load_seed_only_all_walls [OF h, of False] by auto
  from a(7,8) have "cells g' = [15, 15]"
    by (cases "cells g'"; cases "tl (cells g')") auto
  with a h show ?thesis by blast
qed

text \<open>
  The magic bytes are checked: a file that does not start with them is refused.
\<close>

lemma load_bad_magic: "take 4 f \<noteq> MAGIC \<Longrightarrow> load lib f = Inl ValueError"
  by (simp add: load_def read_def)

text \<open>
  Claim C9. The version byte is read and never compared with \<open>VERSION\<close>: a file whose
  version byte is 2 loads like one whose version byte is 1, where the claim asks for an
  error.
\<close>

theorem load_wrong_version_accepted:
  "load stub_lib (MAGIC @ [2, 0, 1, 0, 0, 0, 1, 0, 0, 0, 2, 0, 123, 125, 1, 0, 0, 0, 15]) =
     Inr (\<lparr>width = 1, height = 1, cells = [15]\<rparr>, [123, 125])"
  by (simp add: load_def read_def MAGIC_def unpack_uint_def ebind_def stub_lib_def Let_def
      Grid_init_def FLAG_SEED_ONLY_def FLAG_COMPRESSED_def)


section \<open>Random numbers\<close>

text \<open>
  \<open>random.Random(seed)\<close> is Python's library generator. The model takes the state of
  the generator as the stream of raw draws it will produce (a list; an exhausted list
  keeps producing 0), so a theorem for every \<open>rng\<close> holds for the stream of every seed.
  \<open>randbelow n\<close> is a draw in \<open>[0, n)\<close>; \<open>choice\<close> and \<open>shuffle\<close> follow the library:
  \<open>choice(seq) = seq[randbelow(len(seq))]\<close>, and \<open>shuffle\<close> swaps \<open>x[i]\<close> with
  \<open>x[randbelow(i + 1)]\<close> for \<open>i\<close> from \<open>len - 1\<close> down to 1.
\<close>

type_synonym rng = "nat list"

fun randbelow :: "nat \<Rightarrow> rng \<Rightarrow> nat \<times> rng" where
  "randbelow n [] = (0, [])"
| "randbelow n (r # rs) = (r mod n, rs)"

definition choice :: "'a list \<Rightarrow> rng \<Rightarrow> error + ('a \<times> rng)" where
  "choice xs r = (if xs = [] then Inl IndexError
                  else case randbelow (length xs) r of (j, r') \<Rightarrow> Inr (xs ! j, r'))"



section \<open>Braiding (maze\_engine/core/complexity.py)\<close>


text \<open>The scan \<open>for y in range(height): for x in range(width)\<close>.\<close>

definition scan_order :: "Grid \<Rightarrow> (int \<times> int) list" where
  "scan_order g = concat (map (\<lambda>y. map (\<lambda>x. (x, y)) [0..width g - 1]) [0..height g - 1])"












































section \<open>Solvers (maze\_engine/algo/solvers.py)\<close>

text \<open>
  A \<open>while\<close> loop of the source is \<open>ewhile cond body\<close>: the body can raise, and a loop
  that never leaves is the value \<open>None\<close>. A \<open>break\<close> is a flag of the loop state that
  the condition tests. A \<open>for\<close> loop over a list is \<open>efold\<close>.
\<close>

partial_function (option) ewhile :: "('s \<Rightarrow> bool) \<Rightarrow> ('s \<Rightarrow> error + 's) \<Rightarrow> 's \<Rightarrow> (error + 's) option" where
  "ewhile c b s =
     (if c s then (case b s of Inl e \<Rightarrow> Some (Inl e) | Inr s' \<Rightarrow> ewhile c b s')
      else Some (Inr s))"

declare ewhile.simps [code]

fun efold :: "('a \<Rightarrow> 's \<Rightarrow> error + 's) \<Rightarrow> 'a list \<Rightarrow> 's \<Rightarrow> error + 's" where
  "efold f [] s = Inr s"
| "efold f (x # xs) s = ebind (f x s) (efold f xs)"

text \<open>Sequencing of a computation that may not return with one that can raise.\<close>

definition obind :: "(error + 'a) option \<Rightarrow> ('a \<Rightarrow> (error + 'b) option) \<Rightarrow> (error + 'b) option" where
  "obind m f = (case m of None \<Rightarrow> None | Some (Inl e) \<Rightarrow> Some (Inl e) | Some (Inr v) \<Rightarrow> f v)"

definition cells_or :: "Grid \<Rightarrow> int \<Rightarrow> byte \<Rightarrow> error + Grid" where
  "cells_or g idx bits =
     ebind (array_get (cells g) idx) (\<lambda>v.
     ebind (array_set (cells g) idx (v OR bits)) (\<lambda>c. Inr (g\<lparr>cells := c\<rparr>)))"

definition cells_test :: "Grid \<Rightarrow> int \<Rightarrow> byte \<Rightarrow> error + bool" where
  "cells_test g idx bits = ebind (array_get (cells g) idx) (\<lambda>v. Inr (v AND bits \<noteq> 0))"

type_synonym cell = "int \<times> int"

subsection \<open>BFS\<close>

record bfs_state =
  bfs_grid :: Grid
  bfs_queue :: "cell list"
  bfs_parents :: "byte list"
  bfs_visited_count :: int
  bfs_done :: bool

definition bfs_visit :: "int \<Rightarrow> int \<Rightarrow> (int \<times> int \<times> byte) \<Rightarrow> bfs_state \<Rightarrow> error + bfs_state" where
  "bfs_visit cx cy nb s =
     (case nb of (nx, ny, direction) \<Rightarrow>
      ebind (has_wall (bfs_grid s) cx cy direction) (\<lambda>wall.
      if wall then Inr s
      else
        ebind (get_index (bfs_grid s) nx ny) (\<lambda>idx.
        ebind (cells_test (bfs_grid s) idx SOLVER_VISITED) (\<lambda>seen.
        if seen then Inr s
        else
          ebind (cells_or (bfs_grid s) idx SOLVER_VISITED) (\<lambda>g'.
          ebind (dict_get OPPOSITE direction) (\<lambda>opp.
          ebind (array_set (bfs_parents s) idx opp) (\<lambda>parents'.
          Inr (s\<lparr>bfs_grid := g', bfs_visited_count := bfs_visited_count s + 1,
                 bfs_parents := parents', bfs_queue := bfs_queue s @ [(nx, ny)]\<rparr>))))))))"

definition bfs_body :: "cell \<Rightarrow> bfs_state \<Rightarrow> error + bfs_state" where
  "bfs_body end s =
     (case bfs_queue s of
        [] \<Rightarrow> Inl IndexError
      | current # rest \<Rightarrow>
          let s1 = s\<lparr>bfs_queue := rest\<rparr> in
          if current = end then Inr (s1\<lparr>bfs_done := True\<rparr>)
          else efold (bfs_visit (fst current) (snd current))
                 (get_neighbors (bfs_grid s1) (fst current) (snd current)) s1)"

text \<open>
  \<open>reconstruct_path\<close> walks the parent directions from the end. Its loop state is the
  grid, the path collected so far, the current cell and the \<open>break\<close> flag.
\<close>

definition walk_back_body :: "byte list \<Rightarrow> (Grid \<times> cell list \<times> cell \<times> bool) \<Rightarrow>
    error + (Grid \<times> cell list \<times> cell \<times> bool)" where
  "walk_back_body parents st =
     (case st of (g, path, cur, stop) \<Rightarrow>
        let path' = path @ [cur] in
        ebind (get_index g (fst cur) (snd cur)) (\<lambda>idx.
        ebind (cells_or g idx PATH) (\<lambda>g'.
        ebind (array_get parents idx) (\<lambda>p_dir.
        if p_dir = 0 then Inr (g', path', cur, True)
        else
          ebind (dict_get DX p_dir) (\<lambda>dx.
          ebind (dict_get DY p_dir) (\<lambda>dy.
          Inr (g', path', (fst cur + dx, snd cur + dy), False)))))))"

definition walk_back :: "byte list \<Rightarrow> Grid \<Rightarrow> cell \<Rightarrow> cell \<Rightarrow> (error + (Grid \<times> cell list)) option" where
  "walk_back parents g start end =
     obind (ewhile (\<lambda>(g, path, cur, stop). cur \<noteq> start \<and> \<not> stop) (walk_back_body parents)
              (g, [], end, False))
       (\<lambda>(g', path, cur, stop). Some (Inr (g', path)))"

definition bfs_reconstruct_path :: "bfs_state \<Rightarrow> cell \<Rightarrow> cell \<Rightarrow> (error + (Grid \<times> cell list)) option" where
  "bfs_reconstruct_path s start end =
     (case get_index (bfs_grid s) (fst end) (snd end) of
        Inl e \<Rightarrow> Some (Inl e)
      | Inr end_idx \<Rightarrow>
         (case cells_test (bfs_grid s) end_idx SOLVER_VISITED of
            Inl e \<Rightarrow> Some (Inl e)
          | Inr seen \<Rightarrow>
              if \<not> seen \<and> start \<noteq> end then Some (Inr (bfs_grid s, []))
              else obind (walk_back (bfs_parents s) (bfs_grid s) start end)
                     (\<lambda>(g', path). Some (Inr (g', rev (path @ [start]))))))"

definition BFS :: "Grid \<Rightarrow> cell \<Rightarrow> cell \<Rightarrow> (error + (Grid \<times> cell list)) option" where
  "BFS grid start end =
     (case get_index grid (fst start) (snd start) of
        Inl e \<Rightarrow> Some (Inl e)
      | Inr idx \<Rightarrow>
         (case cells_or grid idx SOLVER_VISITED of
            Inl e \<Rightarrow> Some (Inl e)
          | Inr g1 \<Rightarrow>
              obind (ewhile (\<lambda>s. bfs_queue s \<noteq> [] \<and> \<not> bfs_done s) (bfs_body end)
                       \<lparr>bfs_grid = g1, bfs_queue = [start],
                        bfs_parents = replicate (nat (width grid * height grid)) 0,
                        bfs_visited_count = 1, bfs_done = False\<rparr>)
                (\<lambda>s. bfs_reconstruct_path s start end)))"

subsection \<open>A* and Dijkstra\<close>

text \<open>
  \<open>heapq\<close> is Python's library heap: \<open>heappop\<close> returns the smallest entry (tuples
  compare lexicographically), so the heap is modelled as a sorted list. The distances are
  32-bit signed in the source (\<open>array('i')\<close>); they never exceed the number of cells and
  are integers here. The heuristic is a parameter: Manhattan distance for \<open>AStar\<close>,
  zero for \<open>Dijkstra\<close>.
\<close>

definition heappush :: "'a::linorder list \<Rightarrow> 'a \<Rightarrow> 'a list" where
  "heappush h x = insort x h"

definition heappop :: "'a::linorder list \<Rightarrow> error + ('a \<times> 'a list)" where
  "heappop h = (case h of [] \<Rightarrow> Inl IndexError | x # rest \<Rightarrow> Inr (x, rest))"

record astar_state =
  as_grid :: Grid
  as_open :: "(int \<times> int \<times> int) list"
  as_g_score :: "int list"
  as_parents :: "byte list"
  as_visited_count :: int
  as_done :: bool

definition manhattan :: "cell \<Rightarrow> cell \<Rightarrow> int" where
  "manhattan a b = \<bar>fst a - fst b\<bar> + \<bar>snd a - snd b\<bar>"

definition astar_relax :: "(cell \<Rightarrow> cell \<Rightarrow> int) \<Rightarrow> cell \<Rightarrow> int \<Rightarrow> int \<Rightarrow> int \<Rightarrow>
    (int \<times> int \<times> byte) \<Rightarrow> astar_state \<Rightarrow> error + astar_state" where
  "astar_relax heuristic end cx cy cur_g nb s =
     (case nb of (nx, ny, direction) \<Rightarrow>
      ebind (has_wall (as_grid s) cx cy direction) (\<lambda>wall.
      if wall then Inr s
      else
        ebind (get_index (as_grid s) nx ny) (\<lambda>neighbor_idx.
        let new_g = cur_g + 1 in
        ebind (array_get (as_g_score s) neighbor_idx) (\<lambda>old_g.
        if old_g = -1 \<or> new_g < old_g then
          ebind (array_set (as_g_score s) neighbor_idx new_g) (\<lambda>g_score'.
          let priority = new_g + heuristic (nx, ny) end;
              open' = heappush (as_open s) (priority, nx, ny) in
          ebind (dict_get OPPOSITE direction) (\<lambda>opp.
          ebind (array_set (as_parents s) neighbor_idx opp) (\<lambda>parents'.
          ebind (cells_test (as_grid s) neighbor_idx SOLVER_VISITED) (\<lambda>seen.
          ebind (if seen then Inr (as_grid s, as_visited_count s)
                 else ebind (cells_or (as_grid s) neighbor_idx SOLVER_VISITED)
                        (\<lambda>g'. Inr (g', as_visited_count s + 1))) (\<lambda>(g', vc).
          Inr (s\<lparr>as_grid := g', as_open := open', as_g_score := g_score',
                 as_parents := parents', as_visited_count := vc\<rparr>))))))
        else Inr s))))"

definition astar_body :: "(cell \<Rightarrow> cell \<Rightarrow> int) \<Rightarrow> cell \<Rightarrow> astar_state \<Rightarrow> error + astar_state" where
  "astar_body heuristic end s =
     ebind (heappop (as_open s)) (\<lambda>((prio, cx, cy), rest).
     let s1 = s\<lparr>as_open := rest\<rparr> in
     if (cx, cy) = end then Inr (s1\<lparr>as_done := True\<rparr>)
     else
       ebind (get_index (as_grid s1) cx cy) (\<lambda>cur_idx.
       ebind (array_get (as_g_score s1) cur_idx) (\<lambda>cur_g.
       efold (astar_relax heuristic end cx cy cur_g) (get_neighbors (as_grid s1) cx cy) s1)))"

definition astar_reconstruct_path :: "astar_state \<Rightarrow> cell \<Rightarrow> cell \<Rightarrow> (error + (Grid \<times> cell list)) option" where
  "astar_reconstruct_path s start end =
     (case get_index (as_grid s) (fst end) (snd end) of
        Inl e \<Rightarrow> Some (Inl e)
      | Inr end_idx \<Rightarrow>
         (case array_get (as_g_score s) end_idx of
            Inl e \<Rightarrow> Some (Inl e)
          | Inr end_g \<Rightarrow>
              if end_g = -1 \<and> start \<noteq> end then Some (Inr (as_grid s, []))
              else obind (walk_back (as_parents s) (as_grid s) start end)
                     (\<lambda>(g', path). Some (Inr (g', rev (path @ [start]))))))"

definition astar_run :: "(cell \<Rightarrow> cell \<Rightarrow> int) \<Rightarrow> Grid \<Rightarrow> cell \<Rightarrow> cell \<Rightarrow>
    (error + (Grid \<times> cell list)) option" where
  "astar_run heuristic grid start end =
     (let n = nat (width grid * height grid) in
      case get_index grid (fst start) (snd start) of
        Inl e \<Rightarrow> Some (Inl e)
      | Inr start_idx \<Rightarrow>
         (case array_set (replicate n (-1)) start_idx 0 of
            Inl e \<Rightarrow> Some (Inl e)
          | Inr g_score \<Rightarrow>
             (case cells_or grid start_idx SOLVER_VISITED of
                Inl e \<Rightarrow> Some (Inl e)
              | Inr g1 \<Rightarrow>
                  obind (ewhile (\<lambda>s. as_open s \<noteq> [] \<and> \<not> as_done s) (astar_body heuristic end)
                           \<lparr>as_grid = g1, as_open = heappush [] (0, fst start, snd start),
                            as_g_score = g_score, as_parents = replicate n 0,
                            as_visited_count = 1, as_done = False\<rparr>)
                    (\<lambda>s. astar_reconstruct_path s start end))))"

definition AStar :: "Grid \<Rightarrow> cell \<Rightarrow> cell \<Rightarrow> (error + (Grid \<times> cell list)) option" where
  "AStar = astar_run manhattan"

definition Dijkstra :: "Grid \<Rightarrow> cell \<Rightarrow> cell \<Rightarrow> (error + (Grid \<times> cell list)) option" where
  "Dijkstra = astar_run (\<lambda>a b. 0)"

subsection \<open>Wall follower\<close>

record wfol_state =
  wfol_grid :: Grid
  wfol_pos :: cell
  wfol_facing :: int
  wfol_path :: "cell list"
  wfol_visited_count :: int
  wfol_steps :: int
  wfol_moved :: bool
  wfol_stuck :: bool

definition wfol_dirs :: "byte list" where "wfol_dirs = [NORTH, EAST, SOUTH, WEST]"
definition wfol_dx :: "int list" where "wfol_dx = [0, 1, 0, -1]"
definition wfol_dy :: "int list" where "wfol_dy = [-1, 0, 1, 0]"

definition check_order :: "string \<Rightarrow> int \<Rightarrow> int list" where
  "check_order rule facing =
     (if rule = ''left''
      then [(facing - 1) mod 4, facing, (facing + 1) mod 4, (facing + 2) mod 4]
      else [(facing + 1) mod 4, facing, (facing - 1) mod 4, (facing + 2) mod 4])"

text \<open>One round of the inner \<open>for\<close>; after a move the remaining rounds are skipped
  (\<open>break\<close>).\<close>

definition wfol_try :: "int \<Rightarrow> wfol_state \<Rightarrow> error + wfol_state" where
  "wfol_try d_idx s =
     (if wfol_moved s then Inr s
      else
        ebind (array_get wfol_dirs d_idx) (\<lambda>d_bit.
        ebind (has_wall (wfol_grid s) (fst (wfol_pos s)) (snd (wfol_pos s)) d_bit) (\<lambda>wall.
        if wall then Inr s
        else
          ebind (array_get wfol_dx d_idx) (\<lambda>dx.
          ebind (array_get wfol_dy d_idx) (\<lambda>dy.
          let nx = fst (wfol_pos s) + dx; ny = snd (wfol_pos s) + dy in
          if 0 \<le> nx \<and> nx < width (wfol_grid s) \<and> 0 \<le> ny \<and> ny < height (wfol_grid s) then
            ebind (get_index (wfol_grid s) nx ny) (\<lambda>idx.
            ebind (cells_test (wfol_grid s) idx SOLVER_VISITED) (\<lambda>seen.
            ebind (cells_or (wfol_grid s) idx SOLVER_VISITED) (\<lambda>g'.
            Inr (s\<lparr>wfol_grid := g', wfol_pos := (nx, ny), wfol_facing := d_idx,
                   wfol_path := wfol_path s @ [(nx, ny)],
                   wfol_visited_count := (if seen then wfol_visited_count s
                                          else wfol_visited_count s + 1),
                   wfol_moved := True\<rparr>))))
          else Inr s)))))"

definition wfol_body :: "string \<Rightarrow> wfol_state \<Rightarrow> error + wfol_state" where
  "wfol_body rule s =
     ebind (efold wfol_try (check_order rule (wfol_facing s)) (s\<lparr>wfol_moved := False\<rparr>)) (\<lambda>s'.
     if \<not> wfol_moved s' then Inr (s'\<lparr>wfol_stuck := True\<rparr>)
     else Inr (s'\<lparr>wfol_steps := wfol_steps s' + 1\<rparr>))"

definition mark_path :: "cell \<Rightarrow> Grid \<Rightarrow> error + Grid" where
  "mark_path p g = ebind (get_index g (fst p) (snd p)) (\<lambda>idx. cells_or g idx PATH)"

text \<open>The result is the grid, \<open>self.path\<close> and the last status yielded.\<close>

definition WallFollower :: "string \<Rightarrow> Grid \<Rightarrow> cell \<Rightarrow> cell \<Rightarrow>
    (error + (Grid \<times> cell list \<times> string)) option" where
  "WallFollower rule grid start end =
     (case get_index grid (fst start) (snd start) of
        Inl e \<Rightarrow> Some (Inl e)
      | Inr idx \<Rightarrow>
         (case cells_or grid idx (SOLVER_VISITED OR PATH) of
            Inl e \<Rightarrow> Some (Inl e)
          | Inr g1 \<Rightarrow>
              let max_steps = width grid * height grid * 4 in
              obind (ewhile (\<lambda>s. wfol_pos s \<noteq> end \<and> wfol_steps s < max_steps \<and> \<not> wfol_stuck s)
                       (wfol_body rule)
                       \<lparr>wfol_grid = g1, wfol_pos = start, wfol_facing = 1, wfol_path = [start],
                        wfol_visited_count = 1, wfol_steps = 0, wfol_moved = False,
                        wfol_stuck = False\<rparr>)
                (\<lambda>s.
                   if wfol_pos s = end then
                     (case efold mark_path (wfol_path s) (wfol_grid s) of
                        Inl e \<Rightarrow> Some (Inl e)
                      | Inr g' \<Rightarrow> Some (Inr (g', wfol_path s, ''Solved'')))
                   else Some (Inr (wfol_grid s, wfol_path s, ''Stuck'')))))"

subsection \<open>Depth-first search with a parent array\<close>

record dfs_state =
  dfs_grid :: Grid
  dfs_stack :: "cell list"
  dfs_parents :: "byte list"
  dfs_visited_count :: int
  dfs_done :: bool

definition dfs_visit :: "int \<Rightarrow> int \<Rightarrow> cell \<Rightarrow> dfs_state \<Rightarrow> error + dfs_state" where
  "dfs_visit cx cy n s =
     ebind (get_index (dfs_grid s) (fst n) (snd n)) (\<lambda>n_idx.
     ebind (cells_test (dfs_grid s) n_idx SOLVER_VISITED) (\<lambda>seen.
     if seen then Inr s
     else
       ebind (cells_or (dfs_grid s) n_idx SOLVER_VISITED) (\<lambda>g'.
       let dx = cx - fst n; dy = cy - snd n;
           p_bit = (if dy = -1 then NORTH else if dy = 1 then SOUTH
                    else if dx = -1 then WEST else if dx = 1 then EAST else 0) in
       ebind (array_set (dfs_parents s) n_idx p_bit) (\<lambda>parents'.
       Inr (s\<lparr>dfs_grid := g', dfs_visited_count := dfs_visited_count s + 1,
              dfs_parents := parents', dfs_stack := dfs_stack s @ [n]\<rparr>)))))"

definition dfs_body :: "cell \<Rightarrow> dfs_state \<Rightarrow> error + dfs_state" where
  "dfs_body end s =
     (if dfs_stack s = [] then Inl IndexError
      else
        let cur = last (dfs_stack s); s1 = s\<lparr>dfs_stack := butlast (dfs_stack s)\<rparr> in
        if cur = end then Inr (s1\<lparr>dfs_done := True\<rparr>)
        else
          ebind (get_open_neighbors (dfs_grid s1) (fst cur) (snd cur)) (\<lambda>neighbors.
          efold (dfs_visit (fst cur) (snd cur)) neighbors s1))"

definition RecursiveDFS :: "Grid \<Rightarrow> cell \<Rightarrow> cell \<Rightarrow> (error + (Grid \<times> cell list)) option" where
  "RecursiveDFS grid start end =
     (case get_index grid (fst start) (snd start) of
        Inl e \<Rightarrow> Some (Inl e)
      | Inr idx \<Rightarrow>
         (case cells_or grid idx SOLVER_VISITED of
            Inl e \<Rightarrow> Some (Inl e)
          | Inr g1 \<Rightarrow>
              obind (ewhile (\<lambda>s. dfs_stack s \<noteq> [] \<and> \<not> dfs_done s) (dfs_body end)
                       \<lparr>dfs_grid = g1, dfs_stack = [start],
                        dfs_parents = replicate (nat (width grid * height grid)) 0,
                        dfs_visited_count = 1, dfs_done = False\<rparr>)
                (\<lambda>s.
                   case get_index (dfs_grid s) (fst end) (snd end) of
                     Inl e \<Rightarrow> Some (Inl e)
                   | Inr end_idx \<Rightarrow>
                      (case cells_test (dfs_grid s) end_idx SOLVER_VISITED of
                         Inl e \<Rightarrow> Some (Inl e)
                       | Inr seen \<Rightarrow>
                           if seen then
                             obind (walk_back (dfs_parents s) (dfs_grid s) start end)
                               (\<lambda>(g', path). Some (Inr (g', rev (path @ [start]))))
                           else Some (Inr (dfs_grid s, []))))))"

subsection \<open>Bidirectional A*\<close>

text \<open>
  The source expands the forward and the backward search by the same code, written twice;
  here it is written once, over the side's own queue, distances and parents, with the
  side's own mark bit, the other side's mark bit and the side's target.
\<close>

record bd_side =
  bd_pq :: "(int \<times> int \<times> int \<times> int) list"
  bd_g :: "int list"
  bd_parents :: "byte list"

record bd_state =
  bd_grid :: Grid
  bd_fwd :: bd_side
  bd_bwd :: bd_side
  bd_visited_count :: int
  bd_meeting :: "cell option"

type_synonym bd_view = "Grid \<times> bd_side \<times> int \<times> cell option"

definition bd_relax :: "byte \<Rightarrow> byte \<Rightarrow> cell \<Rightarrow> int \<Rightarrow> int \<Rightarrow> int \<Rightarrow>
    (int \<times> int \<times> byte) \<Rightarrow> bd_view \<Rightarrow> error + bd_view" where
  "bd_relax own other target cx cy g_cur nb v =
     (case v of (g, side, vc, meeting) \<Rightarrow>
      case nb of (nx, ny, direction) \<Rightarrow>
      if meeting \<noteq> None then Inr v
      else
        ebind (has_wall g cx cy direction) (\<lambda>wall.
        if wall then Inr v
        else
          ebind (get_index g nx ny) (\<lambda>neighbor_idx.
          let new_g = g_cur + 1 in
          ebind (array_get (bd_g side) neighbor_idx) (\<lambda>old_g.
          if old_g = -1 \<or> new_g < old_g then
            ebind (array_set (bd_g side) neighbor_idx new_g) (\<lambda>gs'.
            let f = new_g + manhattan (nx, ny) target;
                pq' = heappush (bd_pq side) (f, new_g, nx, ny) in
            ebind (dict_get OPPOSITE direction) (\<lambda>opp.
            ebind (array_set (bd_parents side) neighbor_idx opp) (\<lambda>parents'.
            ebind (cells_test g neighbor_idx own) (\<lambda>seen.
            ebind (if seen then Inr (g, vc)
                   else ebind (cells_or g neighbor_idx own) (\<lambda>g'. Inr (g', vc + 1))) (\<lambda>(g', vc').
            ebind (cells_test g' neighbor_idx other) (\<lambda>met.
            Inr (g', \<lparr>bd_pq = pq', bd_g = gs', bd_parents = parents'\<rparr>, vc',
                 if met then Some (nx, ny) else None)))))))
          else Inr v))))"

definition bd_expand :: "byte \<Rightarrow> byte \<Rightarrow> cell \<Rightarrow> bd_view \<Rightarrow> error + bd_view" where
  "bd_expand own other target v =
     (case v of (g, side, vc, meeting) \<Rightarrow>
      ebind (heappop (bd_pq side)) (\<lambda>((f, g_cur, cx, cy), rest).
      ebind (get_index g cx cy) (\<lambda>cur_idx.
      ebind (cells_test g cur_idx other) (\<lambda>met.
      if met then Inr (g, side\<lparr>bd_pq := rest\<rparr>, vc, Some (cx, cy))
      else efold (bd_relax own other target cx cy g_cur) (get_neighbors g cx cy)
             (g, side\<lparr>bd_pq := rest\<rparr>, vc, meeting)))))"

definition bd_body :: "cell \<Rightarrow> cell \<Rightarrow> bd_state \<Rightarrow> error + bd_state" where
  "bd_body start end s =
     ebind (if bd_pq (bd_fwd s) \<noteq> []
            then ebind (bd_expand SOLVER_VISITED SOLVER_AUX end
                          (bd_grid s, bd_fwd s, bd_visited_count s, bd_meeting s))
                   (\<lambda>(g, side, vc, m).
                      Inr (s\<lparr>bd_grid := g, bd_fwd := side, bd_visited_count := vc, bd_meeting := m\<rparr>))
            else Inr s) (\<lambda>s1.
     if bd_meeting s1 \<noteq> None then Inr s1
     else if bd_pq (bd_bwd s1) \<noteq> []
     then ebind (bd_expand SOLVER_AUX SOLVER_VISITED start
                   (bd_grid s1, bd_bwd s1, bd_visited_count s1, bd_meeting s1))
            (\<lambda>(g, side, vc, m).
               Inr (s1\<lparr>bd_grid := g, bd_bwd := side, bd_visited_count := vc, bd_meeting := m\<rparr>))
     else Inr s1)"

text \<open>The second half of \<open>reconstruct_merged_path\<close>, from the meeting cell to the end.\<close>

definition walk_forward_body :: "byte list \<Rightarrow> cell \<Rightarrow> (Grid \<times> cell list \<times> cell \<times> bool) \<Rightarrow>
    error + (Grid \<times> cell list \<times> cell \<times> bool)" where
  "walk_forward_body parents end st =
     (case st of (g, path, cur, stop) \<Rightarrow>
        let path' = path @ [cur] in
        ebind (get_index g (fst cur) (snd cur)) (\<lambda>idx.
        ebind (cells_or g idx PATH) (\<lambda>g'.
        if cur = end then Inr (g', path', cur, True)
        else
          ebind (array_get parents idx) (\<lambda>p_dir.
          if p_dir = 0 then Inr (g', path', cur, True)
          else
            ebind (dict_get DX p_dir) (\<lambda>dx.
            ebind (dict_get DY p_dir) (\<lambda>dy.
            Inr (g', path', (fst cur + dx, snd cur + dy), False)))))))"

definition reconstruct_merged_path :: "bd_state \<Rightarrow> cell \<Rightarrow> cell \<Rightarrow> cell \<Rightarrow>
    (error + (Grid \<times> cell list)) option" where
  "reconstruct_merged_path s meet start end =
     obind (walk_back (bd_parents (bd_fwd s)) (bd_grid s) start meet) (\<lambda>(g1, path1).
     let path2 = rev (path1 @ [start]) in
     case get_index g1 (fst meet) (snd meet) of
       Inl e \<Rightarrow> Some (Inl e)
     | Inr idx \<Rightarrow>
        (case array_get (bd_parents (bd_bwd s)) idx of
           Inl e \<Rightarrow> Some (Inl e)
         | Inr p_dir \<Rightarrow>
             if p_dir \<noteq> 0 then
               (case dict_get DX p_dir of
                  Inl e \<Rightarrow> Some (Inl e)
                | Inr dx \<Rightarrow>
                   (case dict_get DY p_dir of
                      Inl e \<Rightarrow> Some (Inl e)
                    | Inr dy \<Rightarrow>
                        obind (ewhile (\<lambda>(g, path, cur, stop). \<not> stop)
                                 (walk_forward_body (bd_parents (bd_bwd s)) end)
                                 (g1, path2, (fst meet + dx, snd meet + dy), False))
                          (\<lambda>(g', path, cur, stop). Some (Inr (g', path)))))
             else Some (Inr (g1, path2))))"

definition BiDirectionalAStar :: "Grid \<Rightarrow> cell \<Rightarrow> cell \<Rightarrow> (error + (Grid \<times> cell list)) option" where
  "BiDirectionalAStar grid start end =
     (let n = nat (width grid * height grid) in
      case (ebind (get_index grid (fst start) (snd start)) (\<lambda>start_idx.
            ebind (get_index grid (fst end) (snd end)) (\<lambda>end_idx.
            ebind (array_set (replicate n (-1)) start_idx 0) (\<lambda>g_fwd.
            ebind (array_set (replicate n (-1)) end_idx 0) (\<lambda>g_bwd.
            ebind (cells_or grid start_idx SOLVER_VISITED) (\<lambda>g1.
            ebind (cells_or g1 end_idx SOLVER_AUX) (\<lambda>g2.
            Inr \<lparr>bd_grid = g2,
                 bd_fwd = \<lparr>bd_pq = [(0, 0, fst start, snd start)], bd_g = g_fwd,
                            bd_parents = replicate n 0\<rparr>,
                 bd_bwd = \<lparr>bd_pq = [(0, 0, fst end, snd end)], bd_g = g_bwd,
                            bd_parents = replicate n 0\<rparr>,
                 bd_visited_count = 2, bd_meeting = None\<rparr>))))))) of
        Inl e \<Rightarrow> Some (Inl e)
      | Inr s0 \<Rightarrow>
          obind (ewhile (\<lambda>s. bd_pq (bd_fwd s) \<noteq> [] \<and> bd_pq (bd_bwd s) \<noteq> [] \<and> bd_meeting s = None)
                   (bd_body start end) s0)
            (\<lambda>s. case bd_meeting s of
                    Some meet \<Rightarrow> reconstruct_merged_path s meet start end
                  | None \<Rightarrow> Some (Inr (bd_grid s, []))))"

subsection \<open>Tremaux\<close>

record tr_state =
  tr_grid :: Grid
  tr_cur :: cell
  tr_path_stack :: "cell list"
  tr_path :: "cell list"
  tr_steps :: int
  tr_visited_count :: int
  tr_stop :: bool

definition tr_candidate :: "Grid \<Rightarrow> cell \<Rightarrow> (int \<times> cell) list \<Rightarrow> error + (int \<times> cell) list" where
  "tr_candidate g n candidates =
     ebind (get_index g (fst n) (snd n)) (\<lambda>n_idx.
     ebind (array_get (cells g) n_idx) (\<lambda>c.
     let v0 = (if c AND SOLVER_VISITED \<noteq> 0 then 1 else 0);
         v = (if c AND SOLVER_AUX \<noteq> 0 then 2 else v0) in
     Inr (if v < 2 then candidates @ [(v, n)] else candidates)))"

text \<open>
  The move to \<open>move_target\<close>: a first visit marks the cell and pushes it, a second visit
  sets the second mark and, when the target is the top of the stack, pops it.
\<close>

definition tr_move :: "cell \<Rightarrow> tr_state \<Rightarrow> error + tr_state" where
  "tr_move move_target s =
     ebind (get_index (tr_grid s) (fst move_target) (snd move_target)) (\<lambda>t_idx.
     ebind (cells_test (tr_grid s) t_idx SOLVER_VISITED) (\<lambda>seen.
     if \<not> seen then
       ebind (cells_or (tr_grid s) t_idx SOLVER_VISITED) (\<lambda>g'.
       Inr (s\<lparr>tr_grid := g', tr_visited_count := tr_visited_count s + 1,
              tr_path_stack := tr_path_stack s @ [move_target],
              tr_path := tr_path s @ [move_target], tr_cur := move_target\<rparr>))
     else
       ebind (cells_or (tr_grid s) t_idx SOLVER_AUX) (\<lambda>g'.
       Inr (s\<lparr>tr_grid := g',
              tr_path_stack := (if tr_path_stack s \<noteq> [] \<and> last (tr_path_stack s) = move_target
                                then butlast (tr_path_stack s) else tr_path_stack s),
              tr_cur := move_target\<rparr>))))"

definition tr_body :: "tr_state \<Rightarrow> error + tr_state" where
  "tr_body s =
     ebind (get_open_neighbors (tr_grid s) (fst (tr_cur s)) (snd (tr_cur s))) (\<lambda>neighbors.
     ebind (efold (tr_candidate (tr_grid s)) neighbors []) (\<lambda>candidates0.
     let candidates = sort_key fst candidates0 in
     if candidates \<noteq> [] then
       ebind (tr_move (snd (hd candidates)) s) (\<lambda>s'. Inr (s'\<lparr>tr_steps := tr_steps s' + 1\<rparr>))
     else if tr_path_stack s \<noteq> [] then
       (let stack' = butlast (tr_path_stack s) in
        if stack' \<noteq> [] then
          ebind (tr_move (last stack') (s\<lparr>tr_path_stack := stack'\<rparr>))
            (\<lambda>s'. Inr (s'\<lparr>tr_steps := tr_steps s' + 1\<rparr>))
        else Inr (s\<lparr>tr_path_stack := stack', tr_stop := True\<rparr>))
     else Inr (s\<lparr>tr_stop := True\<rparr>)))"

definition Tremaux :: "Grid \<Rightarrow> cell \<Rightarrow> cell \<Rightarrow> (error + (Grid \<times> cell list)) option" where
  "Tremaux grid start end =
     (case get_index grid (fst start) (snd start) of
        Inl e \<Rightarrow> Some (Inl e)
      | Inr idx \<Rightarrow>
         (case cells_or grid idx SOLVER_VISITED of
            Inl e \<Rightarrow> Some (Inl e)
          | Inr g1 \<Rightarrow>
              let max_steps = width grid * height grid * 20 in
              obind (ewhile (\<lambda>s. tr_cur s \<noteq> end \<and> tr_steps s < max_steps \<and> \<not> tr_stop s) tr_body
                       \<lparr>tr_grid = g1, tr_cur = start, tr_path_stack = [start], tr_path = [],
                        tr_steps = 0, tr_visited_count = 1, tr_stop = False\<rparr>)
                (\<lambda>s. Some (Inr (tr_grid s, tr_path_stack s)))))"

subsection \<open>Dead-end filler\<close>

text \<open>The degrees are unsigned bytes in the source: decrementing a zero raises
  OverflowError.\<close>

record def_state =
  def_grid :: Grid
  def_degrees :: "int list"
  def_active :: "cell list"
  def_next :: "cell list"
  def_visited_count :: int

definition def_scan :: "Grid \<Rightarrow> cell \<Rightarrow> cell \<Rightarrow> cell \<Rightarrow> (int list \<times> cell list) \<Rightarrow>
    error + (int list \<times> cell list)" where
  "def_scan g start end c acc =
     (case acc of (degrees, leaves) \<Rightarrow>
      ebind (get_open_neighbors g (fst c) (snd c)) (\<lambda>ns.
      let deg = int (length ns) in
      ebind (array_set degrees (snd c * width g + fst c) deg) (\<lambda>degrees'.
      Inr (degrees', if deg = 1 \<and> c \<noteq> start \<and> c \<noteq> end then leaves @ [c] else leaves))))"

definition def_lower :: "cell \<Rightarrow> cell \<Rightarrow> cell \<Rightarrow> def_state \<Rightarrow> error + def_state" where
  "def_lower start end n s =
     ebind (get_index (def_grid s) (fst n) (snd n)) (\<lambda>n_idx.
     ebind (cells_test (def_grid s) n_idx SOLVER_AUX) (\<lambda>filled.
     if filled then Inr s
     else
       ebind (array_get (def_degrees s) n_idx) (\<lambda>d.
       if d - 1 < 0 then Inl OverflowError
       else
         ebind (array_set (def_degrees s) n_idx (d - 1)) (\<lambda>degrees'.
         Inr (s\<lparr>def_degrees := degrees',
                def_next := (if d - 1 = 1 \<and> n \<noteq> start \<and> n \<noteq> end
                             then def_next s @ [n] else def_next s)\<rparr>)))))"

definition def_fill :: "cell \<Rightarrow> cell \<Rightarrow> cell \<Rightarrow> def_state \<Rightarrow> error + def_state" where
  "def_fill start end c s =
     ebind (get_index (def_grid s) (fst c) (snd c)) (\<lambda>idx.
     ebind (cells_or (def_grid s) idx SOLVER_AUX) (\<lambda>g'.
     let s1 = s\<lparr>def_grid := g', def_visited_count := def_visited_count s + 1\<rparr> in
     ebind (get_open_neighbors g' (fst c) (snd c)) (\<lambda>ns.
     efold (def_lower start end) ns s1)))"

definition def_body :: "cell \<Rightarrow> cell \<Rightarrow> def_state \<Rightarrow> error + def_state" where
  "def_body start end s =
     ebind (efold (def_fill start end) (def_active s) (s\<lparr>def_next := []\<rparr>)) (\<lambda>s'.
     Inr (s'\<lparr>def_active := def_next s'\<rparr>))"

definition def_collect :: "int \<Rightarrow> (Grid \<times> cell list) \<Rightarrow> error + (Grid \<times> cell list)" where
  "def_collect i acc =
     (case acc of (g, path) \<Rightarrow>
      ebind (cells_test g i SOLVER_AUX) (\<lambda>filled.
      if filled then Inr acc
      else
        ebind (array_get (cells g) i) (\<lambda>c.
        if c AND 15 \<noteq> 15 then
          ebind (cells_or g i PATH) (\<lambda>g'. Inr (g', path @ [(i mod width g, i div width g)]))
        else Inr acc)))"

definition DeadEndFiller :: "Grid \<Rightarrow> cell \<Rightarrow> cell \<Rightarrow> (error + (Grid \<times> cell list)) option" where
  "DeadEndFiller grid start end =
     (case efold (def_scan grid start end) (scan_order grid)
             (replicate (nat (width grid * height grid)) 0, []) of
        Inl e \<Rightarrow> Some (Inl e)
      | Inr (degrees, leaves) \<Rightarrow>
          obind (ewhile (\<lambda>s. def_active s \<noteq> []) (def_body start end)
                   \<lparr>def_grid = grid, def_degrees = degrees, def_active = leaves, def_next = [],
                    def_visited_count = 0\<rparr>)
            (\<lambda>s. Some (efold def_collect [0..width grid * height grid - 1] (def_grid s, []))))"

subsection \<open>Swarm\<close>

text \<open>The walkers draw from the module-level generator of \<open>random\<close>, whose state is
  the \<open>rng\<close> argument.\<close>

record sw_state =
  sw_grid :: Grid
  sw_agents :: "cell list list"
  sw_parents :: "byte list"
  sw_visited_count :: int
  sw_finished :: bool
  sw_all_stuck :: bool
  sw_rng :: rng

definition sw_unvisited :: "Grid \<Rightarrow> cell \<Rightarrow> cell list \<Rightarrow> error + cell list" where
  "sw_unvisited g n acc =
     ebind (get_index g (fst n) (snd n)) (\<lambda>n_idx.
     ebind (cells_test g n_idx SOLVER_VISITED) (\<lambda>seen.
     Inr (if seen then acc else acc @ [n])))"

definition sw_agent :: "cell \<Rightarrow> int \<Rightarrow> sw_state \<Rightarrow> error + sw_state" where
  "sw_agent end i s =
     (if sw_finished s then Inr s
      else
        ebind (array_get (sw_agents s) i) (\<lambda>stack.
        if stack = [] then Inr s
        else
          let s0 = s\<lparr>sw_all_stuck := False\<rparr>; cur = last stack in
          if cur = end then Inr (s0\<lparr>sw_finished := True\<rparr>)
          else
            ebind (get_open_neighbors (sw_grid s0) (fst cur) (snd cur)) (\<lambda>ns.
            ebind (efold (sw_unvisited (sw_grid s0)) ns []) (\<lambda>neighbors.
            if neighbors \<noteq> [] then
              ebind (choice neighbors (sw_rng s0)) (\<lambda>(next_node, r').
              ebind (array_set (sw_agents s0) i (stack @ [next_node])) (\<lambda>agents'.
              ebind (get_index (sw_grid s0) (fst next_node) (snd next_node)) (\<lambda>n_idx.
              ebind (cells_or (sw_grid s0) n_idx SOLVER_VISITED) (\<lambda>g'.
              ebind (array_get (sw_parents s0) n_idx) (\<lambda>p.
              let dx = fst next_node - fst cur; dy = snd next_node - snd cur in
              ebind (if p = 0 then
                       (if dy = -1 then array_set (sw_parents s0) n_idx SOUTH
                        else if dy = 1 then array_set (sw_parents s0) n_idx NORTH
                        else if dx = -1 then array_set (sw_parents s0) n_idx EAST
                        else if dx = 1 then array_set (sw_parents s0) n_idx WEST
                        else Inr (sw_parents s0))
                     else Inr (sw_parents s0)) (\<lambda>parents'.
              Inr (s0\<lparr>sw_grid := g', sw_agents := agents', sw_parents := parents',
                      sw_visited_count := sw_visited_count s0 + 1, sw_rng := r'\<rparr>)))))))
            else
              ebind (array_set (sw_agents s0) i (butlast stack)) (\<lambda>agents'.
              Inr (s0\<lparr>sw_agents := agents'\<rparr>))))))"

definition sw_body :: "cell \<Rightarrow> sw_state \<Rightarrow> error + sw_state" where
  "sw_body end s = efold (sw_agent end) [0..9] (s\<lparr>sw_all_stuck := True\<rparr>)"

definition SwarmSolver :: "Grid \<Rightarrow> cell \<Rightarrow> cell \<Rightarrow> rng \<Rightarrow> (error + (Grid \<times> cell list)) option" where
  "SwarmSolver grid start end r =
     (case get_index grid (fst start) (snd start) of
        Inl e \<Rightarrow> Some (Inl e)
      | Inr idx \<Rightarrow>
         (case cells_or grid idx SOLVER_VISITED of
            Inl e \<Rightarrow> Some (Inl e)
          | Inr g1 \<Rightarrow>
              obind (ewhile (\<lambda>s. \<not> sw_finished s \<and> \<not> sw_all_stuck s) (sw_body end)
                       \<lparr>sw_grid = g1, sw_agents = replicate 10 [start],
                        sw_parents = replicate (nat (width grid * height grid)) 0,
                        sw_visited_count = 0, sw_finished = False, sw_all_stuck = False,
                        sw_rng = r\<rparr>)
                (\<lambda>s.
                   if sw_finished s then
                     (case get_index (sw_grid s) (fst end) (snd end) of
                        Inl e \<Rightarrow> Some (Inl e)
                      | Inr end_idx \<Rightarrow>
                         (case array_get (sw_parents s) end_idx of
                            Inl e \<Rightarrow> Some (Inl e)
                          | Inr p \<Rightarrow>
                              if p \<noteq> 0 then
                                obind (walk_back (sw_parents s) (sw_grid s) start end)
                                  (\<lambda>(g', path). Some (Inr (g', rev path)))
                              else Some (Inr (sw_grid s, []))))
                   else Some (Inr (sw_grid s, [])))))"

subsection \<open>The all-walls grid\<close>

definition marked_start :: "byte \<Rightarrow> Grid" where
  "marked_start b = \<lparr>width = 5, height = 5, cells = b # replicate 24 15\<rparr>"

text \<open>
  Claim C6 does not hold of \<open>WallFollower\<close>. On the all-walls 5 by 5 grid, solved from
  (0,0) to (4,4), it appends the start cell to its path before its loop, finds no open
  direction, and stops with the one-cell path \<open>[(0,0)]\<close> and the status \<open>Stuck\<close> (the
  start cell carries \<open>SOLVER_VISITED\<close> and \<open>PATH\<close>: 15 + 64 + 32). The path of a
  solver that has not reached the end is not empty, although the callers of the solvers
  read a non-empty path as a solution.
\<close>

theorem wall_follower_path_not_empty_counterexample:
  "WallFollower ''left'' (Grid_init 5 5) (0, 0) (4, 4) =
     Some (Inr (marked_start 111, [(0, 0)], ''Stuck''))"
  by code_simp

text \<open>
  Claim C6, solver by solver: on the all-walls 5 by 5 grid, solved from (0,0) to (4,4),
  the solvers \<open>BFS\<close>, \<open>AStar\<close>, \<open>Dijkstra\<close>, \<open>BiDirectionalAStar\<close>, \<open>Tremaux\<close>,
  \<open>RecursiveDFS\<close>, \<open>DeadEndFiller\<close> and \<open>SwarmSolver\<close> (for every stream of random
  numbers) return and yield the empty path, as the claim says; \<open>WallFollower\<close>, under
  both rules, returns the path that holds the start cell alone and reports \<open>Stuck\<close>.
  The grids returned show the scratch bits each solver has set.
\<close>

theorem all_walls_unreachable:
  "BFS (Grid_init 5 5) (0, 0) (4, 4) = Some (Inr (marked_start 79, [])) \<and>
   AStar (Grid_init 5 5) (0, 0) (4, 4) = Some (Inr (marked_start 79, [])) \<and>
   Dijkstra (Grid_init 5 5) (0, 0) (4, 4) = Some (Inr (marked_start 79, [])) \<and>
   BiDirectionalAStar (Grid_init 5 5) (0, 0) (4, 4) =
     Some (Inr (\<lparr>width = 5, height = 5, cells = 79 # replicate 23 15 @ [143]\<rparr>, [])) \<and>
   Tremaux (Grid_init 5 5) (0, 0) (4, 4) = Some (Inr (marked_start 79, [])) \<and>
   RecursiveDFS (Grid_init 5 5) (0, 0) (4, 4) = Some (Inr (marked_start 79, [])) \<and>
   DeadEndFiller (Grid_init 5 5) (0, 0) (4, 4) = Some (Inr (Grid_init 5 5, [])) \<and>
   SwarmSolver (Grid_init 5 5) (0, 0) (4, 4) r = Some (Inr (marked_start 79, [])) \<and>
   WallFollower ''left'' (Grid_init 5 5) (0, 0) (4, 4) =
     Some (Inr (marked_start 111, [(0, 0)], ''Stuck'')) \<and>
   WallFollower ''right'' (Grid_init 5 5) (0, 0) (4, 4) =
     Some (Inr (marked_start 111, [(0, 0)], ''Stuck''))"
proof -
  have "BFS (Grid_init 5 5) (0, 0) (4, 4) = Some (Inr (marked_start 79, []))" by code_simp
  moreover have "AStar (Grid_init 5 5) (0, 0) (4, 4) = Some (Inr (marked_start 79, []))" by code_simp
  moreover have "Dijkstra (Grid_init 5 5) (0, 0) (4, 4) = Some (Inr (marked_start 79, []))" by code_simp
  moreover have "BiDirectionalAStar (Grid_init 5 5) (0, 0) (4, 4) =
      Some (Inr (\<lparr>width = 5, height = 5, cells = 79 # replicate 23 15 @ [143]\<rparr>, []))" by code_simp
  moreover have "Tremaux (Grid_init 5 5) (0, 0) (4, 4) = Some (Inr (marked_start 79, []))" by code_simp
  moreover have "RecursiveDFS (Grid_init 5 5) (0, 0) (4, 4) = Some (Inr (marked_start 79, []))" by code_simp
  moreover have "DeadEndFiller (Grid_init 5 5) (0, 0) (4, 4) = Some (Inr (Grid_init 5 5, []))" by code_simp
  moreover have "SwarmSolver (Grid_init 5 5) (0, 0) (4, 4) r = Some (Inr (marked_start 79, []))" by code_simp
  moreover have "WallFollower ''left'' (Grid_init 5 5) (0, 0) (4, 4) =
     Some (Inr (marked_start 111, [(0, 0)], ''Stuck''))" by code_simp
  moreover have "WallFollower ''right'' (Grid_init 5 5) (0, 0) (4, 4) =
     Some (Inr (marked_start 111, [(0, 0)], ''Stuck''))" by code_simp
  ultimately show ?thesis by blast
qed

end
